theory Spec2Isabelle
  imports Complex_Main "HOL-Library.Sublist"
begin

section \<open>The training script \<^verbatim>\<open>modal.py\<close>\<close>

text \<open>
  The script is a straight line of six framework calls: load a directory of images,
  rescale the pixels, declare a convolutional classifier, compile it, fit it for five
  epochs, and save it. The embedding keeps that shape. What the script itself writes
  (the constants, the lambda, the layer list, the arguments of every call and the order
  of the statements) is translated from the source. What the framework does inside a
  call is either a parameter of the model (the record \<open>keras\<close> below: directory
  scanning, weight initialisation, one optimisation step) or a small definition marked
  as modelled from the specification (the epoch loop of \<open>fit\<close>, the file write of
  \<open>save\<close>).

  Tensor elements are 32-bit floating-point numbers. They are modelled by their real
  values, and the division of the preprocessing step rounds its exact quotient to the
  nearest 32-bit float, as the IEEE 754 division does.
\<close>

subsection \<open>Tensors, batches and datasets\<close>

text \<open>A tensor is the list of its elements; elementwise operations do not look at the
  shape. A batch pairs an image tensor with the labels of its images.\<close>

type_synonym tensor = "real list"

type_synonym batch = "tensor \<times> nat list"

record dataset =
  class_names :: "string list"
  batches :: "batch list"

text \<open>
  Rounding to binary32 (24 significant bits, exponents from -126 to 127, round to nearest,
  ties to even). \<open>binade n x\<close> searches downwards from \<open>n - 126\<close> for the largest
  exponent \<open>e\<close> with \<open>2 powi e \<le> x\<close> and stops at -126, the exponent of the
  subnormal numbers. \<open>fl32 x\<close> rounds \<open>x\<close> to the nearest multiple of the spacing
  \<open>2 powi (e - 23)\<close> of the floats around it. Values too small underflow to zero.
  The quotient of a finite float by 255 is below the largest float, so no infinity is
  needed.
\<close>

definition round_half_even :: "real \<Rightarrow> int" where
  "round_half_even r =
     (let f = \<lfloor>r\<rfloor>; d = r - of_int f
      in if d < 1 / 2 then f else if 1 / 2 < d then f + 1 else if even f then f else f + 1)"

fun binade :: "nat \<Rightarrow> real \<Rightarrow> int" where
  "binade 0 x = - 126"
| "binade (Suc n) x =
     (if 2 powi (int (Suc n) - 126) \<le> x then int (Suc n) - 126 else binade n x)"

definition exponent32 :: "real \<Rightarrow> int" where
  "exponent32 x = binade 253 \<bar>x\<bar>"

definition fl32 :: "real \<Rightarrow> real" where
  "fl32 x =
     of_int (round_half_even (x / 2 powi (exponent32 x - 23))) * 2 powi (exponent32 x - 23)"

text \<open>\<^verbatim>\<open>x / 255.0\<close> on a float32 tensor: every element is divided by the scalar, and
  each quotient is rounded to a float.\<close>

definition tdiv :: "tensor \<Rightarrow> real \<Rightarrow> tensor" where
  "tdiv x c = map (\<lambda>v. fl32 (v / c)) x"

text \<open>\<^verbatim>\<open>lambda x, y: (x/255.0, y)\<close>\<close>

definition normalize_batch :: "tensor \<times> 'y \<Rightarrow> tensor \<times> 'y" where
  "normalize_batch = (\<lambda>(x, y). (tdiv x 255, y))"

text \<open>\<^verbatim>\<open>Dataset.map(f)\<close>: the dataset whose batches are the images of the old ones
  under \<open>f\<close>, in the same order.\<close>

definition dataset_map :: "(batch \<Rightarrow> batch) \<Rightarrow> dataset \<Rightarrow> dataset" where
  "dataset_map f ds = ds\<lparr>batches := map f (batches ds)\<rparr>"

subsection \<open>Layers and models\<close>

text \<open>The layer constructors with the arguments the script passes them: filters, kernel
  size, activation and the optional \<^verbatim>\<open>input_shape\<close> for \<^verbatim>\<open>Conv2D\<close>; units and
  activation for \<^verbatim>\<open>Dense\<close>.\<close>

datatype layer =
    Conv2D nat "nat \<times> nat" string "(nat \<times> nat \<times> nat) option"
  | MaxPooling2D
  | Flatten
  | Dense nat string

record compile_args =
  optimizer :: string
  loss :: string
  metrics :: "string list"

record 'w model =
  layers :: "layer list"
  weights :: 'w
  compiled :: "compile_args option"

definition compile :: "'w model \<Rightarrow> string \<Rightarrow> string \<Rightarrow> string list \<Rightarrow> 'w model" where
  "compile m opt ls ms = m\<lparr>compiled := Some \<lparr>optimizer = opt, loss = ls, metrics = ms\<rparr>\<rparr>"

text \<open>The width of a model's output: the units of its last layer when that is dense.\<close>

fun dense_units :: "layer \<Rightarrow> nat option" where
  "dense_units (Dense n a) = Some n"
| "dense_units l = None"

definition output_width :: "layer list \<Rightarrow> nat option" where
  "output_width ls = (if ls = [] then None else dense_units (last ls))"

subsection \<open>The filesystem, errors and the framework\<close>

datatype ('x, 'w) entry = Blob 'x | H5Model "layer list" "compile_args option" 'w

record ('x, 'w) filesystem =
  files :: "string \<rightharpoonup> ('x, 'w) entry"
  writable :: "string \<Rightarrow> bool"

datatype 'e error = IOError | NotCompiled | FrameworkError 'e

text \<open>
  The parts of the framework the script relies on and the repository does not contain:
  the directory scan (which may raise), the random initialisation of a model's
  parameters, and one optimisation step on one batch (which may raise, for instance on a
  shape mismatch).
\<close>

record ('e, 'x, 'w) keras =
  image_dataset_from_directory ::
    "('x, 'w) filesystem \<Rightarrow> string \<Rightarrow> nat \<times> nat \<Rightarrow> nat \<Rightarrow> 'e + dataset"
  init_weights :: "layer list \<Rightarrow> 'w"
  train_step :: "compile_args \<Rightarrow> layer list \<Rightarrow> 'w \<Rightarrow> batch \<Rightarrow> 'e + 'w"

definition Sequential :: "('e, 'x, 'w) keras \<Rightarrow> layer list \<Rightarrow> 'w model" where
  "Sequential K ls = \<lparr>layers = ls, weights = init_weights K ls, compiled = None\<rparr>"

text \<open>
  Modelled from the spec: \<^verbatim>\<open>Model.fit\<close> is framework code, absent from the
  repository. Section 4.4: for the given number of epochs, a full pass over the
  batches, one optimiser step per batch; an error in a step ends the run. The script
  passes the dataset and the epoch count only (no callbacks, no validation data), so the
  loop has no other exit and holds no batch back.
\<close>

fun run_epoch :: "('w \<Rightarrow> batch \<Rightarrow> 'e + 'w) \<Rightarrow> 'w \<Rightarrow> batch list \<Rightarrow> 'e + 'w" where
  "run_epoch step w [] = Inr w"
| "run_epoch step w (b # bs) =
     (case step w b of Inl e \<Rightarrow> Inl e | Inr w' \<Rightarrow> run_epoch step w' bs)"

fun run_epochs :: "('w \<Rightarrow> batch \<Rightarrow> 'e + 'w) \<Rightarrow> 'w \<Rightarrow> batch list \<Rightarrow> nat \<Rightarrow> 'e + 'w" where
  "run_epochs step w bs 0 = Inr w"
| "run_epochs step w bs (Suc n) =
     (case run_epoch step w bs of Inl e \<Rightarrow> Inl e | Inr w' \<Rightarrow> run_epochs step w' bs n)"

definition fit ::
  "('e, 'x, 'w) keras \<Rightarrow> 'w model \<Rightarrow> dataset \<Rightarrow> nat \<Rightarrow> 'e error + 'w model" where
  "fit K m ds epochs =
     (case compiled m of
        None \<Rightarrow> Inl NotCompiled
      | Some args \<Rightarrow>
          (case run_epochs (train_step K args (layers m)) (weights m) (batches ds) epochs of
             Inl e \<Rightarrow> Inl (FrameworkError e)
           | Inr w \<Rightarrow> Inr (m\<lparr>weights := w\<rparr>)))"

text \<open>
  Modelled from the spec: \<^verbatim>\<open>Model.save\<close> is framework code, absent from the
  repository. Section 4.5: the model's topology and parameter values go to the named
  file, replacing what was there; an unwritable path is an I/O error.
\<close>

definition save ::
  "'w model \<Rightarrow> string \<Rightarrow> ('x, 'w) filesystem \<Rightarrow> 'e error + ('x, 'w) filesystem" where
  "save m path fs =
     (if writable fs path
      then Inr (fs\<lparr>files := (files fs)(path \<mapsto> H5Model (layers m) (compiled m) (weights m))\<rparr>)
      else Inl IOError)"

subsection \<open>The script\<close>

definition data_dir :: string where
  "data_dir = ''dataset''"

definition img_size :: "nat \<times> nat" where
  "img_size = (224, 224)"

definition batch_size :: nat where
  "batch_size = 32"

definition model_layers :: "layer list" where
  "model_layers =
     [Conv2D 32 (3, 3) ''relu'' (Some (224, 224, 3)),
      MaxPooling2D,
      Conv2D 64 (3, 3) ''relu'' None,
      MaxPooling2D,
      Flatten,
      Dense 128 ''relu'',
      Dense 2 ''softmax'']"

text \<open>
  A run is the list of framework calls the script has made, in order, and either the
  error that ended it or its value. A statement that raises ends the run: the script
  has no handler.
\<close>

datatype call = LoadCall | MapCall | SequentialCall | CompileCall | FitCall | SaveCall

type_synonym ('e, 'a) run = "call list \<times> ('e + 'a)"

definition call :: "call \<Rightarrow> 'e + 'a \<Rightarrow> ('e, 'a) run" where
  "call c r = ([c], r)"

definition next_stmt :: "('e, 'a) run \<Rightarrow> ('a \<Rightarrow> ('e, 'b) run) \<Rightarrow> ('e, 'b) run" where
  "next_stmt m f =
     (case m of
        (t, Inl e) \<Rightarrow> (t, Inl e)
      | (t, Inr a) \<Rightarrow> (case f a of (t', r) \<Rightarrow> (t @ t', r)))"

definition load_dataset :: "('e, 'x, 'w) keras \<Rightarrow> ('x, 'w) filesystem \<Rightarrow> 'e error + dataset" where
  "load_dataset K fs =
     (case image_dataset_from_directory K fs data_dir img_size batch_size of
        Inl e \<Rightarrow> Inl (FrameworkError e)
      | Inr ds \<Rightarrow> Inr ds)"

text \<open>The arguments of the script's \<^verbatim>\<open>compile\<close> call, for the statements below.\<close>

abbreviation script_args :: compile_args where
  "script_args \<equiv>
     \<lparr>optimizer = ''adam'', loss = ''sparse_categorical_crossentropy'', metrics = [''accuracy'']\<rparr>"

text \<open>
  The statements of the script, in the order of the file:
  \<^verbatim>\<open>train_ds = image_dataset_from_directory(data_dir, image_size=img_size, batch_size=batch_size)\<close>,
  \<^verbatim>\<open>train_ds = train_ds.map(lambda x, y: (x/255.0, y))\<close>,
  \<^verbatim>\<open>model = keras.Sequential([...])\<close>,
  \<^verbatim>\<open>model.compile(optimizer='adam', loss='sparse_categorical_crossentropy', metrics=['accuracy'])\<close>,
  \<^verbatim>\<open>model.fit(train_ds, epochs=5)\<close>,
  \<^verbatim>\<open>model.save("leaf_model.h5")\<close>.
  The Python calls \<^verbatim>\<open>compile\<close> and \<^verbatim>\<open>fit\<close> change the model object in
  place; here each returns the changed model, which the next statement uses.
\<close>

definition main ::
  "('e, 'x, 'w) keras \<Rightarrow> ('x, 'w) filesystem \<Rightarrow> ('e error, ('x, 'w) filesystem) run" where
  "main K fs =
     next_stmt (call LoadCall (load_dataset K fs)) (\<lambda>train_ds.
     next_stmt (call MapCall (Inr (dataset_map normalize_batch train_ds))) (\<lambda>train_ds.
     next_stmt (call SequentialCall (Inr (Sequential K model_layers))) (\<lambda>model.
     next_stmt (call CompileCall
        (Inr (compile model ''adam'' ''sparse_categorical_crossentropy'' [''accuracy'']))) (\<lambda>model.
     next_stmt (call FitCall (fit K model train_ds 5)) (\<lambda>model.
     call SaveCall (save model ''leaf_model.h5'' fs))))))"

subsection \<open>The layer sequence as the specification words it\<close>

text \<open>
  Section 4.3 describes the model as a sequence of stages: an input of a given shape,
  convolutions with a filter count, a kernel and an activation, pooling, flattening and
  dense stages with a width and an activation. \<open>spec_sequence\<close> is that sentence;
  \<open>describe\<close> reads a list of layer constructors as such a sequence (the
  \<^verbatim>\<open>input_shape\<close> argument of a layer is the input stage in front of it).
\<close>

datatype act = ReLU | Softmax

datatype stage =
    Input nat nat nat
  | Conv nat nat nat act
  | MaxPool
  | FlattenStage
  | DenseStage nat act

definition spec_sequence :: "nat \<Rightarrow> stage list" where
  "spec_sequence N =
     [Input 224 224 3, Conv 32 3 3 ReLU, MaxPool, Conv 64 3 3 ReLU, MaxPool,
      FlattenStage, DenseStage 128 ReLU, DenseStage N Softmax]"

definition act_of :: "string \<Rightarrow> act option" where
  "act_of a =
     (if a = ''relu'' then Some ReLU else if a = ''softmax'' then Some Softmax else None)"

fun describe_layer :: "layer \<Rightarrow> stage list option" where
  "describe_layer (Conv2D f (kh, kw) a shp) =
     (case act_of a of
        None \<Rightarrow> None
      | Some a' \<Rightarrow>
          Some ((case shp of None \<Rightarrow> [] | Some (h, w, c) \<Rightarrow> [Input h w c]) @ [Conv f kh kw a']))"
| "describe_layer MaxPooling2D = Some [MaxPool]"
| "describe_layer Flatten = Some [FlattenStage]"
| "describe_layer (Dense n a) =
     (case act_of a of None \<Rightarrow> None | Some a' \<Rightarrow> Some [DenseStage n a'])"

fun describe :: "layer list \<Rightarrow> stage list option" where
  "describe [] = Some []"
| "describe (l # ls) =
     (case describe_layer l of
        None \<Rightarrow> None
      | Some ss \<Rightarrow> (case describe ls of None \<Rightarrow> None | Some rest \<Rightarrow> Some (ss @ rest)))"

subsection \<open>The order of the script's statements\<close>

definition pipeline :: "call list" where
  "pipeline = [LoadCall, MapCall, SequentialCall, CompileCall, FitCall, SaveCall]"

text \<open>The component each call belongs to, after the script's own section comments
  (\<^verbatim>\<open># Load dataset\<close>, \<^verbatim>\<open># Normalize\<close>, \<^verbatim>\<open># Build model\<close>, \<^verbatim>\<open># Train\<close>,
  \<^verbatim>\<open># Save\<close>).\<close>

datatype component = Loader | Preprocessor | ModelDefinition | Trainer | Persister

fun component_of :: "call \<Rightarrow> component" where
  "component_of LoadCall = Loader"
| "component_of MapCall = Preprocessor"
| "component_of SequentialCall = ModelDefinition"
| "component_of CompileCall = ModelDefinition"
| "component_of FitCall = Trainer"
| "component_of SaveCall = Persister"

subsection \<open>A small instance of the framework, for evaluating the model\<close>

text \<open>Two batches of one three-element image each; a directory scan that needs the
  directory to exist; parameters that count the optimisation steps taken; a filesystem
  that already holds a file at the output path, and one where nothing can be written;
  a framework that discovers three classes, and one whose optimisation step raises.\<close>

definition demo_ds :: dataset where
  "demo_ds = \<lparr>class_names = [''healthy'', ''rust''],
              batches = [([0, 51, 255], [0]), ([102, 204, 255], [1])]\<rparr>"

definition demo_keras :: "(string, unit, nat) keras" where
  "demo_keras =
     \<lparr>image_dataset_from_directory =
        (\<lambda>fs dir size bs. if files fs dir = None then Inl ''not found'' else Inr demo_ds),
      init_weights = (\<lambda>ls. 0),
      train_step = (\<lambda>args ls w b. Inr (Suc w))\<rparr>"

definition demo_fs :: "(unit, nat) filesystem" where
  "demo_fs = \<lparr>files = [''dataset'' \<mapsto> Blob (), ''leaf_model.h5'' \<mapsto> Blob ()],
              writable = (\<lambda>p. True)\<rparr>"

definition readonly_fs :: "(unit, nat) filesystem" where
  "readonly_fs = \<lparr>files = [''dataset'' \<mapsto> Blob ()], writable = (\<lambda>p. False)\<rparr>"

definition three_class_keras :: "(string, unit, nat) keras" where
  "three_class_keras =
     demo_keras\<lparr>image_dataset_from_directory :=
        (\<lambda>fs dir size bs. Inr (demo_ds\<lparr>class_names := [''healthy'', ''rust'', ''scab'']\<rparr>))\<rparr>"

definition failing_keras :: "(string, unit, nat) keras" where
  "failing_keras = demo_keras\<lparr>train_step := (\<lambda>args ls w b. Inl ''shape mismatch'')\<rparr>"

section \<open>Properties\<close>

subsection \<open>Auxiliary facts\<close>

text \<open>Rounding to a float: monotone, exact on the integers it can hold, off by at most
  half a unit in the last place.\<close>

lemma round_half_even_bounds:
  "\<lfloor>r\<rfloor> \<le> round_half_even r \<and> round_half_even r \<le> \<lfloor>r\<rfloor> + 1"
  by (simp add: round_half_even_def Let_def)

lemma round_half_even_of_int [simp]: "round_half_even (of_int k) = k"
  by (simp add: round_half_even_def)

lemma round_half_even_mono:
  assumes "r \<le> s"
  shows "round_half_even r \<le> round_half_even s"
proof (cases "\<lfloor>r\<rfloor> = \<lfloor>s\<rfloor>")
  case True
  then show ?thesis using assms by (auto simp: round_half_even_def Let_def)
next
  case False
  then have "\<lfloor>r\<rfloor> < \<lfloor>s\<rfloor>" using assms floor_mono[of r s] by linarith
  then show ?thesis
    using round_half_even_bounds[of r] round_half_even_bounds[of s] by linarith
qed

lemma round_half_even_error: "\<bar>of_int (round_half_even r) - r\<bar> \<le> 1 / 2"
  unfolding round_half_even_def Let_def by (auto; linarith)

lemma binade_range: "- 126 \<le> binade n x \<and> binade n x \<le> int n - 126"
  by (induction n) auto

lemma binade_lower: "binade n x = - 126 \<or> 2 powi (binade n x) \<le> x"
  by (induction n) auto

lemma binade_upper: "x < 2 powi (int n - 125) \<Longrightarrow> x < 2 powi (binade n x + 1)"
proof (induction n)
  case 0
  then show ?case by simp
next
  case (Suc n)
  show ?case
  proof (cases "2 powi (int (Suc n) - 126) \<le> x")
    case True
    then show ?thesis using Suc.prems by (simp add: algebra_simps)
  next
    case False
    then have "x < 2 powi (int n - 125)" by (simp add: algebra_simps)
    from Suc.IH[OF this] False show ?thesis by simp
  qed
qed

lemma binade_mono: "x \<le> y \<Longrightarrow> binade n x \<le> binade n y"
proof (induction n)
  case 0
  then show ?case by simp
next
  case (Suc n)
  then show ?case using binade_range[of n x] by auto
qed

lemma binade_eq:
  "2 powi e \<le> x \<Longrightarrow> x < 2 powi (e + 1) \<Longrightarrow> - 126 \<le> e \<Longrightarrow> e \<le> int n - 126 \<Longrightarrow>
   binade n x = e"
proof (induction n)
  case 0
  then show ?case by simp
next
  case (Suc n)
  show ?case
  proof (cases "2 powi (int (Suc n) - 126) \<le> x")
    case True
    then have "(2::real) powi (int (Suc n) - 126) < 2 powi (e + 1)" using Suc.prems(2) by linarith
    then have "int (Suc n) - 126 < e + 1"
      using power_int_increasing[of "e + 1" "int (Suc n) - 126" "2::real"] by force
    then show ?thesis using True Suc.prems(4) by simp
  next
    case False
    then have "e \<noteq> int (Suc n) - 126" using Suc.prems(1) by auto
    then have "e \<le> int n - 126" using Suc.prems(4) by simp
    from Suc.IH[OF Suc.prems(1,2,3) this] False show ?thesis by simp
  qed
qed

lemma powi_split: "(2::real) powi (e - 23) * 8388608 = 2 powi e"
proof -
  have "(2::real) powi (e - 23 + 23) = 2 powi (e - 23) * 2 powi 23"
    by (rule power_int_add) simp
  then show ?thesis by simp
qed

lemma powi_split24: "(2::real) powi (e - 23) * 16777216 = 2 powi (e + 1)"
proof -
  have "(2::real) powi (e - 23 + 24) = 2 powi (e - 23) * 2 powi 24"
    by (rule power_int_add) simp
  then show ?thesis by (simp add: algebra_simps)
qed

lemma round_half_even_zero [simp]: "round_half_even 0 = 0"
  using round_half_even_of_int[of 0] by simp

lemma round_half_even_numeral [simp]: "round_half_even (numeral n) = numeral n"
  using round_half_even_of_int[of "numeral n"] by simp

lemma binade_top: "2 powi (int (Suc n) - 126) \<le> x \<Longrightarrow> binade (Suc n) x = int (Suc n) - 126"
  by simp

lemma exponent32_upper:
  assumes "0 \<le> x" and "exponent32 x < 127"
  shows "x < 2 powi (exponent32 x + 1)"
proof -
  have "x < 2 powi (int 253 - 125)"
  proof (rule ccontr)
    assume "\<not> x < 2 powi (int 253 - 125)"
    then have "(2::real) powi 128 \<le> x" by simp
    moreover have "(2::real) powi 127 \<le> 2 powi 128" by (intro power_int_increasing) auto
    ultimately have "2 powi (int (Suc 252) - 126) \<le> x" by simp
    from binade_top[OF this] have "binade 253 x = 127" by simp
    then show False using assms by (simp add: exponent32_def)
  qed
  from binade_upper[OF this] assms(1) show ?thesis by (simp add: exponent32_def)
qed

lemma exponent32_lower:
  assumes "0 \<le> x" and "- 126 < exponent32 x"
  shows "2 powi (exponent32 x) \<le> x"
  using binade_lower[of 253 x] assms by (auto simp: exponent32_def)

lemma exponent32_mono: "0 \<le> x \<Longrightarrow> x \<le> y \<Longrightarrow> exponent32 x \<le> exponent32 y"
  by (simp add: exponent32_def binade_mono)

lemma exponent32_eq:
  "2 powi e \<le> \<bar>x\<bar> \<Longrightarrow> \<bar>x\<bar> < 2 powi (e + 1) \<Longrightarrow> - 126 \<le> e \<Longrightarrow> e \<le> 127 \<Longrightarrow>
   exponent32 x = e"
  unfolding exponent32_def by (rule binade_eq) auto

lemma fl32_below_next_binade:
  assumes "0 \<le> x" and "exponent32 x < 127"
  shows "fl32 x \<le> 2 powi (exponent32 x + 1)"
proof -
  let ?u = "(2::real) powi (exponent32 x - 23)"
  have "x / ?u \<le> 16777216"
    using exponent32_upper[OF assms] powi_split24[of "exponent32 x"]
    by (simp add: field_simps)
  from round_half_even_mono[OF this] have "round_half_even (x / ?u) \<le> 16777216"
    by simp
  then have "(of_int (round_half_even (x / ?u)) :: real) \<le> 16777216"
    by linarith
  then have "fl32 x \<le> 16777216 * ?u"
    unfolding fl32_def by (intro mult_right_mono) auto
  then show ?thesis using powi_split24[of "exponent32 x"] by (simp add: mult.commute)
qed

lemma fl32_above_binade:
  assumes "0 \<le> x" and "- 126 < exponent32 x"
  shows "2 powi (exponent32 x) \<le> fl32 x"
proof -
  let ?u = "(2::real) powi (exponent32 x - 23)"
  have "8388608 \<le> x / ?u"
    using exponent32_lower[OF assms] powi_split[of "exponent32 x"]
    by (simp add: field_simps)
  from round_half_even_mono[OF this] have "8388608 \<le> round_half_even (x / ?u)"
    by simp
  then have "(8388608::real) \<le> of_int (round_half_even (x / ?u))"
    by linarith
  then have "8388608 * ?u \<le> fl32 x"
    unfolding fl32_def by (intro mult_right_mono) auto
  then show ?thesis using powi_split[of "exponent32 x"] by (simp add: mult.commute)
qed

lemma fl32_mono:
  assumes "0 \<le> x" and "x \<le> y"
  shows "fl32 x \<le> fl32 y"
proof (cases "exponent32 x = exponent32 y")
  case True
  let ?u = "(2::real) powi (exponent32 y - 23)"
  have "x / ?u \<le> y / ?u" using assms by (simp add: divide_right_mono)
  from round_half_even_mono[OF this] show ?thesis
    unfolding fl32_def True by (intro mult_right_mono) auto
next
  case False
  then have lt: "exponent32 x < exponent32 y" using exponent32_mono[OF assms] by simp
  have r: "- 126 \<le> exponent32 x" "exponent32 y \<le> 127"
    using binade_range[of 253 "\<bar>x\<bar>"] binade_range[of 253 "\<bar>y\<bar>"] by (auto simp: exponent32_def)
  have "fl32 x \<le> 2 powi (exponent32 x + 1)"
    using fl32_below_next_binade[OF assms(1)] lt r by simp
  also have "\<dots> \<le> 2 powi (exponent32 y)"
    using lt by (intro power_int_increasing) auto
  also have "\<dots> \<le> fl32 y"
    using fl32_above_binade[of y] assms lt r by simp
  finally show ?thesis .
qed

lemma fl32_error: "\<bar>fl32 x - x\<bar> \<le> 2 powi (exponent32 x - 24)"
proof -
  let ?u = "(2::real) powi (exponent32 x - 23)"
  have u: "0 < ?u" by simp
  have "fl32 x - x = (of_int (round_half_even (x / ?u)) - x / ?u) * ?u"
    by (simp add: fl32_def algebra_simps)
  then have "\<bar>fl32 x - x\<bar> = \<bar>of_int (round_half_even (x / ?u)) - x / ?u\<bar> * ?u"
    by (simp add: abs_mult)
  also have "\<dots> \<le> 1 / 2 * ?u"
    using round_half_even_error[of "x / ?u"] by (intro mult_right_mono) auto
  also have "\<dots> = 2 powi (exponent32 x - 24)"
  proof -
    have "(2::real) powi (exponent32 x - 24 + 1) = 2 powi (exponent32 x - 24) * 2 powi 1"
      by (rule power_int_add) simp
    then show ?thesis by simp
  qed
  finally show ?thesis .
qed

lemma fl32_eval:
  assumes "2 powi e \<le> \<bar>x\<bar>" and "\<bar>x\<bar> < 2 powi (e + 1)" and "- 126 \<le> e" and "e \<le> 127"
  shows "fl32 x = of_int (round_half_even (x / 2 powi (e - 23))) * 2 powi (e - 23)"
  by (simp add: fl32_def exponent32_eq[OF assms])

lemma fl32_zero [simp]: "fl32 0 = 0"
  by (simp add: fl32_def)

lemma fl32_one [simp]: "fl32 1 = 1"
proof -
  have "fl32 1 = of_int (round_half_even (1 / 2 powi (0 - 23))) * 2 powi (0 - 23)"
    by (rule fl32_eval) auto
  then show ?thesis by (simp add: power_int_minus)
qed

lemma fl32_fifth: "fl32 (1 / 5) = 13421773 / 67108864"
proof -
  have "fl32 (1 / 5) = of_int (round_half_even ((1 / 5) / 2 powi (- 3 - 23))) * 2 powi (- 3 - 23)"
    by (rule fl32_eval) (auto simp: power_int_minus)
  then show ?thesis by (simp add: power_int_minus round_half_even_def Let_def)
qed

lemma fl32_below: 
  assumes "0 \<le> x" and "x < 2 powi k" and "- 126 < k"
  shows "exponent32 x < k"
proof (rule ccontr)
  assume "\<not> exponent32 x < k"
  then have k: "k \<le> exponent32 x" by simp
  then have "2 powi (exponent32 x) \<le> x" using exponent32_lower[OF assms(1)] assms(3) by simp
  moreover have "(2::real) powi k \<le> 2 powi (exponent32 x)"
    using k by (intro power_int_increasing) auto
  ultimately show False using assms(2) by simp
qed

lemma fl32_nonneg: "0 \<le> x \<Longrightarrow> 0 \<le> fl32 x"
  using fl32_mono[of 0 x] by simp

lemma fl32_inv255: "fl32 (1 / 255) = 8421505 / 2147483648"
proof -
  have "fl32 (1 / 255) =
      of_int (round_half_even ((1 / 255) / 2 powi (- 8 - 23))) * 2 powi (- 8 - 23)"
    by (rule fl32_eval) (auto simp: power_int_minus)
  then show ?thesis by (simp add: power_int_minus round_half_even_def Let_def)
qed

lemma fl32_two_fifths: "fl32 (2 / 5) = 13421773 / 33554432"
proof -
  have "fl32 (2 / 5) = of_int (round_half_even ((2 / 5) / 2 powi (- 2 - 23))) * 2 powi (- 2 - 23)"
    by (rule fl32_eval) (auto simp: power_int_minus)
  then show ?thesis by (simp add: power_int_minus round_half_even_def Let_def)
qed

lemma fl32_four_fifths: "fl32 (4 / 5) = 13421773 / 16777216"
proof -
  have "fl32 (4 / 5) = of_int (round_half_even ((4 / 5) / 2 powi (- 1 - 23))) * 2 powi (- 1 - 23)"
    by (rule fl32_eval) (auto simp: power_int_minus)
  then show ?thesis by (simp add: power_int_minus round_half_even_def Let_def)
qed

lemma fl32_twice_one: "fl32 (1684301 / 109521666048) = 8454531 / 549755813888"
proof -
  have "fl32 (1684301 / 109521666048) =
      of_int (round_half_even ((1684301 / 109521666048) / 2 powi (- 16 - 23))) *
        2 powi (- 16 - 23)"
    by (rule fl32_eval) (auto simp: power_int_minus)
  then show ?thesis by (simp add: power_int_minus round_half_even_def Let_def)
qed

text \<open>The quotient of a pixel value by 255, rounded: it stays between 0 and 1 and is
  within half a unit in the last place, at most \<open>1 / 2 ^ 25\<close>, of the exact quotient.\<close>

lemma fl32_pixel:
  assumes "0 \<le> v" and "v \<le> 255"
  shows "0 \<le> fl32 (v / 255)" and "fl32 (v / 255) \<le> 1" and "\<bar>fl32 (v / 255) - v / 255\<bar> \<le> 1 / 2 ^ 25"
proof -
  have q: "0 \<le> v / 255" "v / 255 \<le> 1" using assms by auto
  show "0 \<le> fl32 (v / 255)" using q(1) by (rule fl32_nonneg)
  show "fl32 (v / 255) \<le> 1" using fl32_mono[OF q] by simp
  show "\<bar>fl32 (v / 255) - v / 255\<bar> \<le> 1 / 2 ^ 25"
  proof (cases "v / 255 = 1")
    case True
    then show ?thesis by simp
  next
    case False
    then have "v / 255 < 2 powi 0" using q(2) by simp
    from fl32_below[OF q(1) this] have "exponent32 (v / 255) - 24 \<le> - 25" by simp
    then have "(2::real) powi (exponent32 (v / 255) - 24) \<le> 2 powi (- 25)"
      by (intro power_int_increasing) auto
    then show ?thesis using fl32_error[of "v / 255"] by (simp add: power_int_minus)
  qed
qed

text \<open>The same for a value that is already at most 1: the rounded quotient is at most
  the float nearest to 1/255 and within \<open>1 / 2 ^ 32\<close> of the exact quotient.\<close>

lemma fl32_small:
  assumes "0 \<le> v" and "v \<le> 1"
  shows "0 \<le> fl32 (v / 255)" and "fl32 (v / 255) \<le> 8421505 / 2147483648"
    and "\<bar>fl32 (v / 255) - v / 255\<bar> \<le> 1 / 2 ^ 32"
proof -
  have q: "0 \<le> v / 255" "v / 255 \<le> 1 / 255" using assms by auto
  show "0 \<le> fl32 (v / 255)" using q(1) by (rule fl32_nonneg)
  show "fl32 (v / 255) \<le> 8421505 / 2147483648" using fl32_mono[OF q] by (simp add: fl32_inv255)
  have "v / 255 < 2 powi (- 7)" using q(2) by (simp add: power_int_minus)
  from fl32_below[OF q(1) this] have "exponent32 (v / 255) - 24 \<le> - 32" by simp
  then have "(2::real) powi (exponent32 (v / 255) - 24) \<le> 2 powi (- 32)"
    by (intro power_int_increasing) auto
  then show "\<bar>fl32 (v / 255) - v / 255\<bar> \<le> 1 / 2 ^ 32"
    using fl32_error[of "v / 255"] by (simp add: power_int_minus)
qed

lemma fl32_twice:
  assumes "0 \<le> v" and "v \<le> 255"
  shows "0 \<le> fl32 (fl32 (v / 255) / 255)"
    and "fl32 (fl32 (v / 255) / 255) \<le> 8421505 / 2147483648"
    and "\<bar>fl32 (fl32 (v / 255) / 255) - v / 255\<^sup>2\<bar> \<le> 1 / 2 ^ 31"
proof -
  let ?a = "fl32 (v / 255)"
  note a = fl32_pixel[OF assms]
  note b = fl32_small[OF a(1,2)]
  show "0 \<le> fl32 (?a / 255)" by (rule b(1))
  show "fl32 (?a / 255) \<le> 8421505 / 2147483648" by (rule b(2))
  have "\<bar>?a / 255 - v / 255\<^sup>2\<bar> = \<bar>?a - v / 255\<bar> / 255"
    by (simp add: power2_eq_square field_simps)
  also have "\<dots> \<le> (1 / 2 ^ 25) / 255" using a(3) by (intro divide_right_mono) auto
  finally have c: "\<bar>?a / 255 - v / 255\<^sup>2\<bar> \<le> (1 / 2 ^ 25) / 255" .
  have "\<bar>fl32 (?a / 255) - v / 255\<^sup>2\<bar> \<le>
      \<bar>fl32 (?a / 255) - ?a / 255\<bar> + \<bar>?a / 255 - v / 255\<^sup>2\<bar>"
    by linarith
  also have "\<dots> \<le> 1 / 2 ^ 32 + (1 / 2 ^ 25) / 255"
    using b(3) c by (rule add_mono)
  also have "\<dots> \<le> 1 / 2 ^ 31" by simp
  finally show "\<bar>fl32 (?a / 255) - v / 255\<^sup>2\<bar> \<le> 1 / 2 ^ 31" .
qed

text \<open>The epoch loop and the script, unfolded.\<close>

lemma run_epoch_append:
  "run_epoch step w (xs @ ys) =
     (case run_epoch step w xs of Inl e \<Rightarrow> Inl e | Inr w' \<Rightarrow> run_epoch step w' ys)"
  by (induction xs arbitrary: w) (auto split: sum.splits)

lemma run_epochs_concat:
  "run_epochs step w bs n = run_epoch step w (concat (replicate n bs))"
  by (induction n arbitrary: w) (auto simp: run_epoch_append split: sum.splits)

lemma fit_script:
  "fit K (compile (Sequential K model_layers) ''adam'' ''sparse_categorical_crossentropy''
        [''accuracy'']) ds n =
     (case run_epochs (train_step K script_args model_layers) (init_weights K model_layers)
             (batches ds) n of
        Inl e \<Rightarrow> Inl (FrameworkError e)
      | Inr w \<Rightarrow> Inr \<lparr>layers = model_layers, weights = w, compiled = Some script_args\<rparr>)"
  by (simp add: fit_def compile_def Sequential_def split: sum.splits)

lemma main_unfold:
  "main K fs =
     (case load_dataset K fs of
        Inl e \<Rightarrow> ([LoadCall], Inl e)
      | Inr ds \<Rightarrow>
          (case fit K (compile (Sequential K model_layers) ''adam''
                  ''sparse_categorical_crossentropy'' [''accuracy''])
                  (dataset_map normalize_batch ds) 5 of
             Inl e \<Rightarrow> ([LoadCall, MapCall, SequentialCall, CompileCall, FitCall], Inl e)
           | Inr m \<Rightarrow> (pipeline, save m ''leaf_model.h5'' fs)))"
  by (simp add: main_def next_stmt_def call_def pipeline_def split: sum.splits)

lemma demo_load: "load_dataset demo_keras demo_fs = Inr demo_ds"
  by (simp add: load_dataset_def demo_keras_def demo_fs_def data_dir_def)

text \<open>The demo instance, evaluated.\<close>

lemma demo_fit:
  "fit demo_keras (compile (Sequential demo_keras model_layers) ''adam''
        ''sparse_categorical_crossentropy'' [''accuracy''])
        (dataset_map normalize_batch demo_ds) 5 =
     Inr \<lparr>layers = model_layers, weights = 10, compiled = Some script_args\<rparr>"
  by (simp add: fit_script run_epochs_concat demo_keras_def demo_ds_def dataset_map_def
      eval_nat_numeral)

lemma demo_main:
  "main demo_keras demo_fs =
     (pipeline,
      Inr (demo_fs\<lparr>files := (files demo_fs)(''leaf_model.h5'' \<mapsto>
             H5Model model_layers (Some script_args) 10)\<rparr>))"
  by (simp add: main_unfold demo_load demo_fit) (simp add: save_def demo_fs_def)

lemma readonly_load: "load_dataset demo_keras readonly_fs = Inr demo_ds"
  by (simp add: load_dataset_def demo_keras_def readonly_fs_def data_dir_def)

lemma readonly_main: "main demo_keras readonly_fs = (pipeline, Inl IOError)"
  by (simp add: main_unfold readonly_load demo_fit) (simp add: save_def readonly_fs_def)

lemma three_class_load:
  "load_dataset three_class_keras demo_fs =
     Inr (demo_ds\<lparr>class_names := [''healthy'', ''rust'', ''scab'']\<rparr>)"
  by (simp add: load_dataset_def three_class_keras_def)

lemma missing_dir_main:
  "main demo_keras (demo_fs\<lparr>files := Map.empty\<rparr>) = ([LoadCall], Inl (FrameworkError ''not found''))"
  by (simp add: main_unfold load_dataset_def demo_keras_def)

lemma failing_load: "load_dataset failing_keras demo_fs = Inr demo_ds"
  by (simp add: load_dataset_def failing_keras_def demo_keras_def demo_fs_def data_dir_def)

lemma failing_fit:
  "fit failing_keras (compile (Sequential failing_keras model_layers) ''adam''
        ''sparse_categorical_crossentropy'' [''accuracy''])
        (dataset_map normalize_batch demo_ds) 5 = Inl (FrameworkError ''shape mismatch'')"
  by (simp add: fit_script run_epochs_concat failing_keras_def demo_keras_def demo_ds_def
      dataset_map_def eval_nat_numeral)

subsection \<open>The model definition\<close>

text \<open>
  C1. The width of the model's output layer is the literal 2. The model expression does
  not mention the loaded dataset, so whatever label set the loader returns, the width
  is 2; it agrees with the number of discovered classes exactly when that number is 2.
\<close>

theorem output_width_hard_coded:
  assumes "load_dataset K fs = Inr ds"
  shows "output_width (layers (Sequential K model_layers)) = Some 2 \<and>
         (output_width (layers (Sequential K model_layers)) = Some (length (class_names ds))
            \<longleftrightarrow> length (class_names ds) = 2)"
  by (auto simp: Sequential_def model_layers_def output_width_def)

theorem output_width_hard_coded_witness:
  "load_dataset demo_keras demo_fs = Inr demo_ds \<and>
   length (class_names demo_ds) = 2 \<and>
   output_width (layers (Sequential demo_keras model_layers)) = Some (length (class_names demo_ds)) \<and>
   load_dataset three_class_keras demo_fs =
     Inr (demo_ds\<lparr>class_names := [''healthy'', ''rust'', ''scab'']\<rparr>) \<and>
   output_width (layers (Sequential three_class_keras model_layers)) = Some 2 \<and>
   output_width (layers (Sequential three_class_keras model_layers)) \<noteq> Some 3"
  using output_width_hard_coded[OF demo_load] output_width_hard_coded[OF three_class_load]
  by (simp add: demo_load three_class_load demo_ds_def)

text \<open>
  C2. Read as a sequence of stages, the layer list of the script is the sequence of
  section 4.3 with N = 2: input 224 x 224 x 3, convolution (32 filters, 3 x 3, ReLU),
  max-pooling, convolution (64 filters, 3 x 3, ReLU), max-pooling, flatten, dense (128,
  ReLU), dense (2, softmax). The list has seven layers and nothing else.
\<close>

theorem model_is_the_fixed_sequence:
  "describe (layers (Sequential K model_layers)) = Some (spec_sequence 2) \<and>
   length (layers (Sequential K model_layers)) = 7"
  by (simp add: Sequential_def model_layers_def spec_sequence_def act_of_def)

subsection \<open>The preprocessor\<close>

text \<open>
  C3. The preprocessing function divides every element of the image tensor by 255 in
  32-bit floating point: an element in the range from 0 to 255 (the integer pixel values
  among them) becomes the float nearest to its quotient by 255, which is within
  \<open>1 / 2 ^ 25\<close> of that quotient and lies between 0 and 1. The result has as many
  elements as the input. The transform is elementwise and stateless: an output element
  is determined by the input element alone, whatever the rest of the tensor, the labels
  or the position are.
\<close>

theorem normalize_unit_range:
  assumes "i < length x" and "0 \<le> x ! i" and "x ! i \<le> 255"
  shows "fst (normalize_batch (x, y)) ! i = fl32 (x ! i / 255) \<and>
         \<bar>fst (normalize_batch (x, y)) ! i - x ! i / 255\<bar> \<le> 1 / 2 ^ 25 \<and>
         0 \<le> fst (normalize_batch (x, y)) ! i \<and>
         fst (normalize_batch (x, y)) ! i \<le> 1 \<and>
         length (fst (normalize_batch (x, y))) = length x \<and>
         (\<forall>x' y' i'. i' < length x' \<and> x' ! i' = x ! i \<longrightarrow>
            fst (normalize_batch (x', y')) ! i' = fst (normalize_batch (x, y)) ! i)"
  using assms fl32_pixel[of "x ! i"] by (simp add: normalize_batch_def tdiv_def)

theorem normalize_unit_range_witness:
  "fst (normalize_batch ([0, 51, 255], [0::nat])) ! 1 = 13421773 / 67108864 \<and>
   \<bar>13421773 / 67108864 - (51::real) / 255\<bar> \<le> 1 / 2 ^ 25 \<and>
   fst (normalize_batch ([0, 51, 255], [0::nat])) ! 2 = 1 \<and>
   fst (normalize_batch ([0, 51, 255], [0::nat])) ! 0 = 0 \<and>
   fst (normalize_batch ([7, 51], [3::nat, 4])) ! 1 = fst (normalize_batch ([0, 51, 255], [0::nat])) ! 1"
  using normalize_unit_range[of 1 "[0, 51, 255]" "[0::nat]"]
    normalize_unit_range[of 2 "[0, 51, 255]" "[0::nat]"]
    normalize_unit_range[of 0 "[0, 51, 255]" "[0::nat]"]
  by (simp add: fl32_fifth normalize_batch_def tdiv_def)

text \<open>
  C9, as the code has it. Applied to elements already between 0 and 1, the
  preprocessing function gives values near zero: the float nearest to the element's
  quotient by 255, within \<open>1 / 2 ^ 32\<close> of that quotient and at most 8421505 / 2 ^ 31,
  the float nearest to 1/255 (which is slightly above 1/255). Applied twice to a pixel
  value between 0 and 255, it gives the value divided by 255 squared up to rounding:
  within \<open>1 / 2 ^ 31\<close> of it, and again at most 8421505 / 2 ^ 31.
\<close>

theorem renormalize_near_zero:
  assumes "i < length x" and "0 \<le> x ! i"
  shows "(x ! i \<le> 1 \<longrightarrow>
            fst (normalize_batch (x, y)) ! i = fl32 (x ! i / 255) \<and>
            0 \<le> fst (normalize_batch (x, y)) ! i \<and>
            fst (normalize_batch (x, y)) ! i \<le> 8421505 / 2147483648 \<and>
            \<bar>fst (normalize_batch (x, y)) ! i - x ! i / 255\<bar> \<le> 1 / 2 ^ 32) \<and>
         (x ! i \<le> 255 \<longrightarrow>
            fst (normalize_batch (normalize_batch (x, y))) ! i = fl32 (fl32 (x ! i / 255) / 255) \<and>
            0 \<le> fst (normalize_batch (normalize_batch (x, y))) ! i \<and>
            fst (normalize_batch (normalize_batch (x, y))) ! i \<le> 8421505 / 2147483648 \<and>
            \<bar>fst (normalize_batch (normalize_batch (x, y))) ! i - x ! i / 255\<^sup>2\<bar> \<le> 1 / 2 ^ 31)"
  using assms fl32_small[of "x ! i"] fl32_twice[of "x ! i"]
  by (simp add: normalize_batch_def tdiv_def)

theorem renormalize_near_zero_witness:
  "fst (normalize_batch ([1 / 5, 1], [0::nat])) ! 1 = 8421505 / 2147483648 \<and>
   fst (normalize_batch (normalize_batch ([1 / 5, 1], [0::nat]))) ! 1 = 8454531 / 549755813888 \<and>
   \<bar>8454531 / 549755813888 - (1::real) / 255\<^sup>2\<bar> \<le> 1 / 2 ^ 31"
  using renormalize_near_zero[of 1 "[1 / 5, 1]" "[0::nat]"]
  by (simp add: fl32_inv255 fl32_twice_one)

text \<open>
  C9 as worded does not hold of the code. Its bound fails at the element 1 (a white pixel
  after one normalisation): the result of dividing it by 255 is the float
  8421505 / 2 ^ 31, which exceeds 1/255; and two applications to the pixel value 255 do
  not give 255 / 255 squared.
\<close>

theorem renormalize_exceeds_bound:
  "fst (normalize_batch ([1], [0::nat])) ! 0 = 8421505 / 2147483648 \<and>
   \<not> fst (normalize_batch ([1], [0::nat])) ! 0 \<le> 1 / 255 \<and>
   fst (normalize_batch (normalize_batch ([255], [0::nat]))) ! 0 \<noteq> 255 / 255\<^sup>2"
  by (simp add: normalize_batch_def tdiv_def fl32_inv255)

text \<open>
  C10. The preprocessing map leaves the labels alone: a batch (x, y) of the loaded
  dataset becomes (x / 255, y), with the same y, at the same position.
\<close>

theorem labels_unchanged:
  assumes "j < length (batches ds)" and "batches ds ! j = (x, y)"
  shows "batches (dataset_map normalize_batch ds) ! j = (tdiv x 255, y) \<and>
         snd (batches (dataset_map normalize_batch ds) ! j) = y"
  using assms by (simp add: dataset_map_def normalize_batch_def)

theorem labels_unchanged_witness:
  "batches demo_ds ! 1 = ([102, 204, 255], [1]) \<and>
   batches (dataset_map normalize_batch demo_ds) ! 1 =
     ([13421773 / 33554432, 13421773 / 16777216, 1], [1])"
  using labels_unchanged[of 1 demo_ds "[102, 204, 255]" "[1]"]
  by (simp add: demo_ds_def tdiv_def fl32_two_fifths fl32_four_fifths)

subsection \<open>Training\<close>

text \<open>
  C5. A run of the script that ends without an error has trained for exactly five full
  passes: the saved parameters are the result of stepping through all batches of the
  preprocessed dataset five times in a row, none held back for validation, and the only
  file the run has written is the final model (no checkpoint).
\<close>

theorem five_full_passes:
  assumes "main K fs = (t, Inr fs')"
  shows "\<exists>ds w. load_dataset K fs = Inr ds \<and>
           run_epoch (train_step K script_args model_layers) (init_weights K model_layers)
             (concat (replicate 5 (map normalize_batch (batches ds)))) = Inr w \<and>
           files fs' ''leaf_model.h5'' = Some (H5Model model_layers (Some script_args) w) \<and>
           (\<forall>p. p \<noteq> ''leaf_model.h5'' \<longrightarrow> files fs' p = files fs p)"
  using assms
  by (auto simp: main_unfold fit_script run_epochs_concat save_def dataset_map_def
      split: sum.splits if_splits)

theorem five_full_passes_witness:
  "main demo_keras demo_fs =
     (pipeline,
      Inr (demo_fs\<lparr>files := (files demo_fs)(''leaf_model.h5'' \<mapsto>
             H5Model model_layers (Some script_args) 10)\<rparr>)) \<and>
   length (batches demo_ds) = 2 \<and>
   run_epoch (train_step demo_keras script_args model_layers) (init_weights demo_keras model_layers)
     (concat (replicate 5 (map normalize_batch (batches demo_ds)))) = Inr (5 * 2)"
  using five_full_passes[OF demo_main]
  by (simp add: demo_main demo_load) (simp add: demo_ds_def demo_keras_def eval_nat_numeral)

subsection \<open>Control flow\<close>

text \<open>
  C6. The script runs its statements in one fixed order and has no other path. If the
  load raises, the run ends there with that error. If the load returns, the loaded
  dataset is preprocessed, the model is defined and compiled, and the preprocessed
  dataset and the compiled model go to the training; if the training raises, the run
  ends there with that error and nothing is saved. If the training returns, the run
  goes on to save the trained model, and the outcome of the save is the outcome of the
  run. So the calls made are always an initial segment of load, map, define, compile,
  fit, save, none is made twice, the components follow in the order loader,
  preprocessor, model definition, trainer, persister, and a save happens only after the
  load and the whole training have returned.
\<close>

theorem strictly_sequential:
  "(\<forall>e. load_dataset K fs = Inl e \<longrightarrow> main K fs = ([LoadCall], Inl e)) \<and>
   (\<forall>ds e. load_dataset K fs = Inr ds \<and>
        fit K (compile (Sequential K model_layers) ''adam''
          ''sparse_categorical_crossentropy'' [''accuracy''])
          (dataset_map normalize_batch ds) 5 = Inl e \<longrightarrow>
        main K fs = ([LoadCall, MapCall, SequentialCall, CompileCall, FitCall], Inl e)) \<and>
   (\<forall>ds m. load_dataset K fs = Inr ds \<and>
        fit K (compile (Sequential K model_layers) ''adam''
          ''sparse_categorical_crossentropy'' [''accuracy''])
          (dataset_map normalize_batch ds) 5 = Inr m \<longrightarrow>
        main K fs =
          ([LoadCall, MapCall, SequentialCall, CompileCall, FitCall, SaveCall],
           save m ''leaf_model.h5'' fs)) \<and>
   prefix (fst (main K fs)) pipeline \<and>
   fst (main K fs) \<in> {take 1 pipeline, take 5 pipeline, pipeline} \<and>
   distinct pipeline \<and>
   map component_of pipeline =
     [Loader, Preprocessor, ModelDefinition, ModelDefinition, Trainer, Persister] \<and>
   (SaveCall \<in> set (fst (main K fs)) \<longrightarrow>
      (\<exists>ds m. load_dataset K fs = Inr ds \<and>
         fit K (compile (Sequential K model_layers) ''adam''
           ''sparse_categorical_crossentropy'' [''accuracy''])
           (dataset_map normalize_batch ds) 5 = Inr m))"
  by (auto simp: main_unfold pipeline_def split: sum.splits)

theorem strictly_sequential_witness:
  "main demo_keras demo_fs =
     ([LoadCall, MapCall, SequentialCall, CompileCall, FitCall, SaveCall],
      save \<lparr>layers = model_layers, weights = 10, compiled = Some script_args\<rparr>
        ''leaf_model.h5'' demo_fs) \<and>
   SaveCall \<in> set (fst (main demo_keras demo_fs)) \<and>
   main failing_keras demo_fs =
     ([LoadCall, MapCall, SequentialCall, CompileCall, FitCall],
      Inl (FrameworkError ''shape mismatch'')) \<and>
   main demo_keras (demo_fs\<lparr>files := Map.empty\<rparr>) =
     ([LoadCall], Inl (FrameworkError ''not found''))"
proof -
  have missing: "load_dataset demo_keras (demo_fs\<lparr>files := Map.empty\<rparr>) =
      Inl (FrameworkError ''not found'')"
    by (simp add: load_dataset_def demo_keras_def)
  note ok = strictly_sequential[of demo_keras demo_fs]
  note bad = strictly_sequential[of failing_keras demo_fs]
  note gone = strictly_sequential[of demo_keras "demo_fs\<lparr>files := Map.empty\<rparr>"]
  have 1: "main demo_keras demo_fs =
     ([LoadCall, MapCall, SequentialCall, CompileCall, FitCall, SaveCall],
      save \<lparr>layers = model_layers, weights = 10, compiled = Some script_args\<rparr>
        ''leaf_model.h5'' demo_fs)"
    using ok demo_load demo_fit by blast
  have 2: "main failing_keras demo_fs =
     ([LoadCall, MapCall, SequentialCall, CompileCall, FitCall],
      Inl (FrameworkError ''shape mismatch''))"
    using bad failing_load failing_fit by blast
  have 3: "main demo_keras (demo_fs\<lparr>files := Map.empty\<rparr>) =
     ([LoadCall], Inl (FrameworkError ''not found''))"
    using gone missing by blast
  show ?thesis using 1 2 3 by simp
qed

subsection \<open>Persistence\<close>

text \<open>
  C8. After a successful training the script saves to the one path
  \<^verbatim>\<open>leaf_model.h5\<close>. If the path is writable, the file there afterwards holds the
  layer list, the compile arguments and the trained parameters, whatever it held before,
  and no other file has changed; if it is not writable, the run ends in an I/O error.
\<close>

theorem save_writes_final_model:
  assumes "load_dataset K fs = Inr ds"
    and "fit K (compile (Sequential K model_layers) ''adam''
           ''sparse_categorical_crossentropy'' [''accuracy''])
           (dataset_map normalize_batch ds) 5 = Inr m"
  shows "(writable fs ''leaf_model.h5'' \<longrightarrow>
            (\<exists>fs'. snd (main K fs) = Inr fs' \<and>
               files fs' ''leaf_model.h5'' =
                 Some (H5Model model_layers (Some script_args) (weights m)) \<and>
               (\<forall>p. p \<noteq> ''leaf_model.h5'' \<longrightarrow> files fs' p = files fs p))) \<and>
         (\<not> writable fs ''leaf_model.h5'' \<longrightarrow> snd (main K fs) = Inl IOError)"
  using assms
  by (auto simp: main_unfold fit_script save_def split: sum.splits)

theorem save_writes_final_model_witness:
  "writable demo_fs ''leaf_model.h5'' \<and>
   files demo_fs ''leaf_model.h5'' = Some (Blob ()) \<and>
   (\<exists>fs'. snd (main demo_keras demo_fs) = Inr fs' \<and>
      files fs' ''leaf_model.h5'' = Some (H5Model model_layers (Some script_args) 10) \<and>
      files fs' ''dataset'' = Some (Blob ())) \<and>
   \<not> writable readonly_fs ''leaf_model.h5'' \<and>
   snd (main demo_keras readonly_fs) = Inl IOError"
  using save_writes_final_model[OF demo_load demo_fit]
    save_writes_final_model[OF readonly_load demo_fit]
  by (simp add: demo_main readonly_main) (simp add: demo_fs_def readonly_fs_def)

end
